theory Spec2Isabelle
  imports Main "HOL-Library.Word"
begin

unbundle bit_operations_syntax

section \<open>Data model (oneWire.h)\<close>

text \<open>
  The driver runs on an STM32 under FreeRTOS. Bytes are \<open>uint8_t\<close>, the pin mask is
  \<open>uint32_t\<close>, and the tick counter type \<open>TickType_t\<close> is the 32-bit unsigned type of
  the Cortex-M ports (\<open>configUSE_16_BIT_TICKS = 0\<close>): addition wraps modulo \<open>2 ^ 32\<close>
  and comparison is unsigned.
\<close>

type_synonym uint8_t = "8 word"
type_synonym uint32_t = "32 word"
type_synonym TickType_t = "32 word"

text \<open>The HAL's pin level enumeration: \<open>GPIO_PIN_RESET = 0\<close>, \<open>GPIO_PIN_SET = 1\<close>.\<close>

datatype GPIO_PinState = GPIO_PIN_RESET | GPIO_PIN_SET

text \<open>The state enumeration, in the order of the header.\<close>

datatype OneWireState =
    ONEWIRE_STATE_IDLE
  | ONEWIRE_STATE_ERROR
  | ONEWIRE_STATE_RESET_INIT
  | ONEWIRE_STATE_RESET_DRIVE_BUS_LOW
  | ONEWIRE_STATE_RESET_RELEASE_BUS
  | ONEWIRE_STATE_RESET_SAMPLE_BUS
  | ONEWIRE_STATE_RESET_DONE
  | ONEWIRE_STATE_WRITE_HIGH_INIT
  | ONEWIRE_STATE_WRITE_HIGH_DRIVE_BUS_LOW
  | ONEWIRE_STATE_WRITE_HIGH_RELEASE_BUS
  | ONEWIRE_STATE_WRITE_HIGH_DONE
  | ONEWIRE_STATE_WRITE_LOW_INIT
  | ONEWIRE_STATE_WRITE_LOW_DRIVE_BUS_LOW
  | ONEWIRE_STATE_WRITE_LOW_RELEASE_BUS
  | ONEWIRE_STATE_WRITE_LOW_DONE
  | ONEWIRE_STATE_MASTER_READ_INIT
  | ONEWIRE_STATE_MASTER_READ_DRIVE_BUS_LOW
  | ONEWIRE_STATE_MASTER_READ_RELEASE_BUS
  | ONEWIRE_STATE_MASTER_READ_SAMPLE_BUS
  | ONEWIRE_STATE_MASTER_READ_DONE
  | ONEWIRE_STATE_SLAVE_READ_INIT
  | ONEWIRE_STATE_SLAVE_READ_MONITOR_BUS
  | ONEWIRE_STATE_SLAVE_READ_RELEASE_BUS
  | ONEWIRE_STATE_SLAVE_READ_SAMPLE_BUS
  | ONEWIRE_STATE_SLAVE_READ_DONE

text \<open>
  oneWire.c names the read states \<open>ONEWIRE_STATE_READ_*\<close>; the header declares them as
  \<open>ONEWIRE_STATE_MASTER_READ_*\<close>. The names of the C file stand for the master read
  states of the header.
\<close>

abbreviation ONEWIRE_STATE_READ_INIT :: OneWireState where
  "ONEWIRE_STATE_READ_INIT \<equiv> ONEWIRE_STATE_MASTER_READ_INIT"

abbreviation ONEWIRE_STATE_READ_DRIVE_BUS_LOW :: OneWireState where
  "ONEWIRE_STATE_READ_DRIVE_BUS_LOW \<equiv> ONEWIRE_STATE_MASTER_READ_DRIVE_BUS_LOW"

abbreviation ONEWIRE_STATE_READ_RELEASE_BUS :: OneWireState where
  "ONEWIRE_STATE_READ_RELEASE_BUS \<equiv> ONEWIRE_STATE_MASTER_READ_RELEASE_BUS"

abbreviation ONEWIRE_STATE_READ_SAMPLE_BUS :: OneWireState where
  "ONEWIRE_STATE_READ_SAMPLE_BUS \<equiv> ONEWIRE_STATE_MASTER_READ_SAMPLE_BUS"

abbreviation ONEWIRE_STATE_READ_DONE :: OneWireState where
  "ONEWIRE_STATE_READ_DONE \<equiv> ONEWIRE_STATE_MASTER_READ_DONE"

datatype OneWireFlags =
    FLAG_ERROR
  | FLAG_PRESENCE_DETECTED
  | FLAG_BYTE_RECEIVED
  | FLAG_BYTE_SEND
  | FLAG_IS_SLAVE

text \<open>The numeric value of each flag enumerator (its bit position in \<open>flag_reg\<close>).\<close>

fun flag_no :: "OneWireFlags \<Rightarrow> nat" where
  "flag_no FLAG_ERROR = 0"
| "flag_no FLAG_PRESENCE_DETECTED = 1"
| "flag_no FLAG_BYTE_RECEIVED = 2"
| "flag_no FLAG_BYTE_SEND = 3"
| "flag_no FLAG_IS_SLAVE = 4"

text \<open>The driver instance. \<open>Port\<close> is the address of the GPIO peripheral.\<close>

record OneWireDriver =
  Pin :: uint32_t
  Port :: nat
  state :: OneWireState
  tx_byte :: uint8_t
  rx_byte :: uint8_t
  bit_index :: uint8_t
  timestamp :: TickType_t
  flag_reg :: uint8_t

text \<open>Standard speed delays (\<open>ONEWIRE_SPEED_MODE = ONEWIRE_STANDARD_SPEED\<close>).\<close>

definition WRITE_1_LOW_DELAY :: TickType_t where "WRITE_1_LOW_DELAY = 6"
definition WRITE_1_RELEASE_BUS_DELAY :: TickType_t where "WRITE_1_RELEASE_BUS_DELAY = 64"
definition WRITE_0_LOW_DELAY :: TickType_t where "WRITE_0_LOW_DELAY = 60"
definition WRITE_0_RELEASE_BUS_DELAY :: TickType_t where "WRITE_0_RELEASE_BUS_DELAY = 10"
definition READ_RELEASE_BUS_DELAY :: TickType_t where "READ_RELEASE_BUS_DELAY = 9"
definition READ_SAMPLE_DELAY :: TickType_t where "READ_SAMPLE_DELAY = 55"
definition RESET_INIT_DELAY :: TickType_t where "RESET_INIT_DELAY = 0"
definition RESET_DRIVE_BUS_LOW_DELAY :: TickType_t where "RESET_DRIVE_BUS_LOW_DELAY = 480"
definition RESET_RELEASE_BUS_DELAY :: TickType_t where "RESET_RELEASE_BUS_DELAY = 70"
definition RESET_SAMPLE_BUS_DELAY :: TickType_t where "RESET_SAMPLE_BUS_DELAY = 410"

section \<open>The platform: HAL calls, tick counter, tick conversion\<close>

text \<open>
  The calls the driver makes on the HAL, in the order it makes them. A call of
  \<open>onewire_process\<close> returns the list of its calls: \<open>HAL_GPIO_WritePin\<close> with
  \<open>GPIO_PIN_RESET\<close> drives the bus low, with \<open>GPIO_PIN_SET\<close> it releases the bus, and
  \<open>HAL_GPIO_ReadPin\<close> samples it.
\<close>

datatype hal_call =
    HAL_GPIO_Init nat uint32_t
  | HAL_GPIO_WritePin nat uint32_t GPIO_PinState
  | HAL_GPIO_ReadPin nat uint32_t

text \<open>
  What one call of \<open>onewire_process\<close> reads from the platform. On every path through
  the function \<open>xTaskGetTickCount\<close> is called at most once inside \<open>is_time_expired\<close>
  and, after it, at most once inside \<open>set_state\<close> or \<open>set_write_init_state\<close>; the pin
  is read at most once. \<open>tick_chk\<close> is the first reading of the counter, \<open>tick_set\<close>
  the second, \<open>pin_level\<close> the value \<open>HAL_GPIO_ReadPin\<close> returns.
\<close>

record poll_env =
  tick_chk :: TickType_t
  tick_set :: TickType_t
  pin_level :: GPIO_PinState

text \<open>
  FreeRTOS's macro \<open>pdMS_TO_TICKS\<close> is not part of the repository. The driver's
  functions take it as the parameter \<open>cv\<close>, so what is proved of them holds for any
  conversion. \<open>pdMS_TO_TICKS_at hz\<close> is the macro as FreeRTOS defines it, for the tick
  rate \<open>configTICK_RATE_HZ = hz\<close>:
  \<open>(TickType_t)(((TickType_t)(x) * (TickType_t)hz) / (TickType_t)1000)\<close>
  (later FreeRTOS versions form the product in 64 bits; for the delays and rates used
  below the two agree). It is used where a concrete run is evaluated.
\<close>

definition pdMS_TO_TICKS_at :: "TickType_t \<Rightarrow> TickType_t \<Rightarrow> TickType_t" where
  "pdMS_TO_TICKS_at hz x = (x * hz) div 1000"

section \<open>Private functions (oneWire.c)\<close>

definition pull_low :: "OneWireDriver \<Rightarrow> hal_call" where
  "pull_low onewire = HAL_GPIO_WritePin (Port onewire) (Pin onewire) GPIO_PIN_RESET"

definition pull_high :: "OneWireDriver \<Rightarrow> hal_call" where
  "pull_high onewire = HAL_GPIO_WritePin (Port onewire) (Pin onewire) GPIO_PIN_SET"

definition read_pin :: "OneWireDriver \<Rightarrow> hal_call" where
  "read_pin onewire = HAL_GPIO_ReadPin (Port onewire) (Pin onewire)"

text \<open>
  \<open>is_time_expired\<close> converts its argument with \<open>pdMS_TO_TICKS\<close> and compares in
  \<open>TickType_t\<close>; \<open>now\<close> is the value \<open>xTaskGetTickCount\<close> returns.
\<close>

definition is_time_expired ::
  "(TickType_t \<Rightarrow> TickType_t) \<Rightarrow> OneWireDriver \<Rightarrow> TickType_t \<Rightarrow> TickType_t \<Rightarrow> bool" where
  "is_time_expired cv onewire expatration_time now \<longleftrightarrow>
     timestamp onewire + cv expatration_time \<le> now"

definition set_state :: "OneWireDriver \<Rightarrow> OneWireState \<Rightarrow> TickType_t \<Rightarrow> OneWireDriver" where
  "set_state onewire new_state now = onewire\<lparr>state := new_state, timestamp := now\<rparr>"

definition pin_output_mode :: "OneWireDriver \<Rightarrow> hal_call" where
  "pin_output_mode onewire = HAL_GPIO_Init (Port onewire) (Pin onewire)"

text \<open>
  \<open>1 << flag_bit\<close> is computed in \<open>int\<close> and the result of the compound assignment is
  truncated to \<open>uint8_t\<close>; for \<open>flag_bit < 8\<close> that is the 8-bit operation.
\<close>

definition set_flag :: "OneWireDriver \<Rightarrow> OneWireFlags \<Rightarrow> OneWireDriver" where
  "set_flag onewire flag_bit =
     (if flag_no flag_bit < 8
      then onewire\<lparr>flag_reg := flag_reg onewire OR push_bit (flag_no flag_bit) 1\<rparr>
      else onewire)"

definition reset_flag :: "OneWireDriver \<Rightarrow> OneWireFlags \<Rightarrow> OneWireDriver" where
  "reset_flag onewire flag_bit =
     (if flag_no flag_bit < 8
      then onewire\<lparr>flag_reg := flag_reg onewire AND NOT (push_bit (flag_no flag_bit) 1)\<rparr>
      else onewire)"

definition get_flag :: "OneWireDriver \<Rightarrow> OneWireFlags \<Rightarrow> uint8_t" where
  "get_flag onewire flag_bit =
     (if flag_no flag_bit < 8
      then drop_bit (flag_no flag_bit) (flag_reg onewire) AND 1
      else 0)"

text \<open>
  \<open>store_read_bit\<close>: \<open>1 << bit_index\<close> is an \<open>int\<close> shift, truncated to \<open>uint8_t\<close> by the
  assignment. For \<open>bit_index < 31\<close> this is the 8-bit shift (which is 0 from 8 on); a
  shift by 31 or more is undefined in C and the claims below keep \<open>bit_index < 8\<close>.
\<close>

definition store_read_bit :: "OneWireDriver \<Rightarrow> uint8_t \<Rightarrow> OneWireDriver" where
  "store_read_bit onewire val =
     (if val \<noteq> 0
      then onewire\<lparr>rx_byte := rx_byte onewire OR push_bit (unat (bit_index onewire)) 1\<rparr>
      else onewire\<lparr>rx_byte := rx_byte onewire AND NOT (push_bit (unat (bit_index onewire)) 1)\<rparr>)"

definition set_write_init_state :: "OneWireDriver \<Rightarrow> uint8_t \<Rightarrow> TickType_t \<Rightarrow> OneWireDriver" where
  "set_write_init_state onewire b now =
     (if b \<noteq> 0
      then onewire\<lparr>timestamp := now, state := ONEWIRE_STATE_WRITE_HIGH_INIT\<rparr>
      else onewire\<lparr>timestamp := now, state := ONEWIRE_STATE_WRITE_LOW_INIT\<rparr>)"

definition handle_write_bit_done_state :: "OneWireDriver \<Rightarrow> TickType_t \<Rightarrow> OneWireDriver" where
  "handle_write_bit_done_state onewire now =
     (let ow1 = onewire\<lparr>bit_index := bit_index onewire + 1\<rparr> in
      if bit_index ow1 \<ge> 8
      then set_flag ((set_state ow1 ONEWIRE_STATE_IDLE now)\<lparr>bit_index := 0, rx_byte := 0\<rparr>)
             FLAG_BYTE_SEND
      else set_write_init_state ow1
             (drop_bit (unat (bit_index ow1)) (tx_byte ow1) AND 1) now)"

text \<open>The value of a pin level when it is passed as a \<open>uint8_t\<close>.\<close>

fun pin_value :: "GPIO_PinState \<Rightarrow> uint8_t" where
  "pin_value GPIO_PIN_RESET = 0"
| "pin_value GPIO_PIN_SET = 1"

section \<open>Public functions (oneWire.c)\<close>

text \<open>
  \<open>onewire_init\<close> as oneWire.c defines it (three parameters). The fields are all
  assigned, so the result does not depend on the instance passed in.
\<close>

definition onewire_init :: "nat \<Rightarrow> uint32_t \<Rightarrow> OneWireDriver \<times> hal_call list" where
  "onewire_init port pin =
     (let onewire = \<lparr>Pin = pin, Port = port, state = ONEWIRE_STATE_IDLE, tx_byte = 0,
                     rx_byte = 0, bit_index = 0, timestamp = 0, flag_reg = 0\<rparr>
      in (onewire, [pin_output_mode onewire]))"

text \<open>
  The machine that \<open>onewire_process\<close> works on is the instance together with the
  file-scope variable \<open>sampled_bus_bit\<close> (initialised to \<open>GPIO_PIN_SET\<close>). The result
  is the new machine and the HAL calls made.

  The body of \<open>case ONEWIRE_STATE_WRITE_HIGH_INIT\<close> is also reached from
  \<open>case ONEWIRE_STATE_RESET_SAMPLE_BUS\<close>: the \<open>break\<close> of that case is inside its
  \<open>else\<close> branch, so the branch taken while the window is open falls through.
\<close>

definition write_high_init_body ::
  "poll_env \<Rightarrow> OneWireDriver \<Rightarrow> OneWireDriver \<times> hal_call list" where
  "write_high_init_body e onewire =
     (let ow1 = set_state onewire ONEWIRE_STATE_WRITE_HIGH_DRIVE_BUS_LOW (tick_set e)
      in (ow1, [pull_low ow1]))"

definition onewire_process ::
  "(TickType_t \<Rightarrow> TickType_t) \<Rightarrow> poll_env \<Rightarrow> OneWireDriver \<times> GPIO_PinState
     \<Rightarrow> (OneWireDriver \<times> GPIO_PinState) \<times> hal_call list" where
  "onewire_process cv e m =
     (let onewire = fst m; sampled_bus_bit = snd m in
      case state onewire of
        ONEWIRE_STATE_RESET_INIT \<Rightarrow>
          if is_time_expired cv onewire (cv RESET_INIT_DELAY) (tick_chk e)
          then (let ow1 = set_state onewire ONEWIRE_STATE_RESET_DRIVE_BUS_LOW (tick_set e)
                in ((ow1, sampled_bus_bit), [pull_low ow1]))
          else ((onewire, sampled_bus_bit), [])
      | ONEWIRE_STATE_RESET_DRIVE_BUS_LOW \<Rightarrow>
          if is_time_expired cv onewire (cv RESET_DRIVE_BUS_LOW_DELAY) (tick_chk e)
          then (let ow1 = set_state onewire ONEWIRE_STATE_RESET_RELEASE_BUS (tick_set e)
                in ((ow1, sampled_bus_bit), [pull_high ow1]))
          else ((onewire, sampled_bus_bit), [])
      | ONEWIRE_STATE_RESET_RELEASE_BUS \<Rightarrow>
          if is_time_expired cv onewire (cv RESET_RELEASE_BUS_DELAY) (tick_chk e)
          then ((reset_flag (set_state onewire ONEWIRE_STATE_RESET_SAMPLE_BUS (tick_set e))
                   FLAG_PRESENCE_DETECTED, sampled_bus_bit), [])
          else ((onewire, sampled_bus_bit), [])
      | ONEWIRE_STATE_RESET_SAMPLE_BUS \<Rightarrow>
          if \<not> is_time_expired cv onewire (cv RESET_SAMPLE_BUS_DELAY) (tick_chk e)
          then (let ow1 = (if pin_level e = GPIO_PIN_RESET
                           then set_flag onewire FLAG_PRESENCE_DETECTED else onewire);
                    r = write_high_init_body e ow1
                in ((fst r, sampled_bus_bit), read_pin onewire # snd r))
          else (let ow1 = set_state onewire ONEWIRE_STATE_RESET_DONE (tick_set e);
                    ow2 = (if get_flag ow1 FLAG_PRESENCE_DETECTED \<noteq> 0
                           then set_flag ow1 FLAG_ERROR else ow1)
                in ((ow2, sampled_bus_bit), []))
      | ONEWIRE_STATE_WRITE_HIGH_INIT \<Rightarrow>
          (let r = write_high_init_body e onewire in ((fst r, sampled_bus_bit), snd r))
      | ONEWIRE_STATE_WRITE_HIGH_DRIVE_BUS_LOW \<Rightarrow>
          if is_time_expired cv onewire (cv WRITE_1_LOW_DELAY) (tick_chk e)
          then (let ow1 = set_state onewire ONEWIRE_STATE_WRITE_HIGH_RELEASE_BUS (tick_set e)
                in ((ow1, sampled_bus_bit), [pull_high ow1]))
          else ((onewire, sampled_bus_bit), [])
      | ONEWIRE_STATE_WRITE_HIGH_RELEASE_BUS \<Rightarrow>
          if is_time_expired cv onewire (cv WRITE_1_RELEASE_BUS_DELAY) (tick_chk e)
          then ((set_state onewire ONEWIRE_STATE_WRITE_HIGH_DONE (tick_set e),
                 sampled_bus_bit), [])
          else ((onewire, sampled_bus_bit), [])
      | ONEWIRE_STATE_WRITE_LOW_INIT \<Rightarrow>
          (let ow1 = set_state onewire ONEWIRE_STATE_WRITE_LOW_DRIVE_BUS_LOW (tick_set e)
           in ((ow1, sampled_bus_bit), [pull_low ow1]))
      | ONEWIRE_STATE_WRITE_LOW_DRIVE_BUS_LOW \<Rightarrow>
          if is_time_expired cv onewire (cv WRITE_0_LOW_DELAY) (tick_chk e)
          then (let ow1 = set_state onewire ONEWIRE_STATE_WRITE_LOW_RELEASE_BUS (tick_set e)
                in ((ow1, sampled_bus_bit), [pull_high ow1]))
          else ((onewire, sampled_bus_bit), [])
      | ONEWIRE_STATE_WRITE_LOW_RELEASE_BUS \<Rightarrow>
          if is_time_expired cv onewire (cv WRITE_0_RELEASE_BUS_DELAY) (tick_chk e)
          then ((set_state onewire ONEWIRE_STATE_WRITE_LOW_DONE (tick_set e),
                 sampled_bus_bit), [])
          else ((onewire, sampled_bus_bit), [])
      | ONEWIRE_STATE_WRITE_HIGH_DONE \<Rightarrow>
          ((handle_write_bit_done_state onewire (tick_set e), sampled_bus_bit), [])
      | ONEWIRE_STATE_WRITE_LOW_DONE \<Rightarrow>
          ((handle_write_bit_done_state onewire (tick_set e), sampled_bus_bit), [])
      | ONEWIRE_STATE_READ_INIT \<Rightarrow>
          (let ow1 = set_state onewire ONEWIRE_STATE_READ_DRIVE_BUS_LOW (tick_set e)
           in ((ow1, sampled_bus_bit), [pull_low ow1]))
      | ONEWIRE_STATE_READ_DRIVE_BUS_LOW \<Rightarrow>
          if is_time_expired cv onewire (cv WRITE_1_LOW_DELAY) (tick_chk e)
          then (let ow1 = set_state onewire ONEWIRE_STATE_READ_RELEASE_BUS (tick_set e)
                in ((ow1, sampled_bus_bit), [pull_high ow1]))
          else ((onewire, sampled_bus_bit), [])
      | ONEWIRE_STATE_READ_RELEASE_BUS \<Rightarrow>
          if is_time_expired cv onewire (cv READ_RELEASE_BUS_DELAY) (tick_chk e)
          then ((set_state onewire ONEWIRE_STATE_READ_SAMPLE_BUS (tick_set e),
                 sampled_bus_bit), [])
          else ((onewire, sampled_bus_bit), [])
      | ONEWIRE_STATE_READ_SAMPLE_BUS \<Rightarrow>
          if \<not> is_time_expired cv onewire (cv READ_SAMPLE_DELAY) (tick_chk e)
          then ((onewire,
                 if pin_level e = GPIO_PIN_RESET then GPIO_PIN_RESET else sampled_bus_bit),
                [read_pin onewire])
          else ((set_state (store_read_bit onewire (pin_value sampled_bus_bit))
                   ONEWIRE_STATE_READ_DONE (tick_set e), sampled_bus_bit), [])
      | ONEWIRE_STATE_READ_DONE \<Rightarrow>
          (let ow1 = onewire\<lparr>bit_index := bit_index onewire + 1\<rparr> in
           if bit_index ow1 \<ge> 8
           then ((set_state ((set_flag ow1 FLAG_BYTE_RECEIVED)\<lparr>bit_index := 0\<rparr>)
                    ONEWIRE_STATE_IDLE (tick_set e), GPIO_PIN_SET), [])
           else ((set_state ow1 ONEWIRE_STATE_READ_INIT (tick_set e), GPIO_PIN_SET), []))
      | _ \<Rightarrow>
          ((set_flag (set_state onewire ONEWIRE_STATE_ERROR (tick_set e)) FLAG_ERROR,
            sampled_bus_bit), []))"

definition onewire_write_byte :: "OneWireDriver \<Rightarrow> uint8_t \<Rightarrow> TickType_t \<Rightarrow> OneWireDriver" where
  "onewire_write_byte onewire data now =
     set_write_init_state (onewire\<lparr>tx_byte := data, bit_index := 0\<rparr>) (data AND 1) now"

section \<open>Polling\<close>

text \<open>
  The driver is polled: the application calls \<open>onewire_process\<close> again and again.
  \<open>onewire_poll\<close> makes one call for each element of a list of platform readings and
  returns the final machine with all HAL calls in order; \<open>poll_states\<close> lists the
  state field after each call.
\<close>

fun onewire_poll ::
  "(TickType_t \<Rightarrow> TickType_t) \<Rightarrow> poll_env list \<Rightarrow> OneWireDriver \<times> GPIO_PinState
     \<Rightarrow> (OneWireDriver \<times> GPIO_PinState) \<times> hal_call list" where
  "onewire_poll cv [] m = (m, [])"
| "onewire_poll cv (e # es) m =
     (let r = onewire_process cv e m; r' = onewire_poll cv es (fst r)
      in (fst r', snd r @ snd r'))"

fun poll_states ::
  "(TickType_t \<Rightarrow> TickType_t) \<Rightarrow> poll_env list \<Rightarrow> OneWireDriver \<times> GPIO_PinState
     \<Rightarrow> OneWireState list" where
  "poll_states cv [] m = []"
| "poll_states cv (e # es) m =
     (let m' = fst (onewire_process cv e m) in state (fst m') # poll_states cv es m')"

text \<open>
  The delay constant that \<open>onewire_process\<close> passes to \<open>is_time_expired\<close> in each
  state that waits for a deadline; the other states do not look at the clock.
\<close>

fun phase_delay :: "OneWireState \<Rightarrow> TickType_t option" where
  "phase_delay ONEWIRE_STATE_RESET_INIT = Some RESET_INIT_DELAY"
| "phase_delay ONEWIRE_STATE_RESET_DRIVE_BUS_LOW = Some RESET_DRIVE_BUS_LOW_DELAY"
| "phase_delay ONEWIRE_STATE_RESET_RELEASE_BUS = Some RESET_RELEASE_BUS_DELAY"
| "phase_delay ONEWIRE_STATE_RESET_SAMPLE_BUS = Some RESET_SAMPLE_BUS_DELAY"
| "phase_delay ONEWIRE_STATE_WRITE_HIGH_DRIVE_BUS_LOW = Some WRITE_1_LOW_DELAY"
| "phase_delay ONEWIRE_STATE_WRITE_HIGH_RELEASE_BUS = Some WRITE_1_RELEASE_BUS_DELAY"
| "phase_delay ONEWIRE_STATE_WRITE_LOW_DRIVE_BUS_LOW = Some WRITE_0_LOW_DELAY"
| "phase_delay ONEWIRE_STATE_WRITE_LOW_RELEASE_BUS = Some WRITE_0_RELEASE_BUS_DELAY"
| "phase_delay ONEWIRE_STATE_MASTER_READ_DRIVE_BUS_LOW = Some WRITE_1_LOW_DELAY"
| "phase_delay ONEWIRE_STATE_MASTER_READ_RELEASE_BUS = Some READ_RELEASE_BUS_DELAY"
| "phase_delay ONEWIRE_STATE_MASTER_READ_SAMPLE_BUS = Some READ_SAMPLE_DELAY"
| "phase_delay _ = None"

text \<open>
  \<open>deadline_open\<close>: the instance is in a timed phase and the check that
  \<open>onewire_process\<close> makes in that phase finds the deadline not yet expired.
\<close>

definition deadline_open ::
  "(TickType_t \<Rightarrow> TickType_t) \<Rightarrow> OneWireDriver \<Rightarrow> poll_env \<Rightarrow> bool" where
  "deadline_open cv onewire e =
     (case phase_delay (state onewire) of
        None \<Rightarrow> False
      | Some d \<Rightarrow> \<not> is_time_expired cv onewire (cv d) (tick_chk e))"

section \<open>Writing a byte: the expected course\<close>

text \<open>
  The four phases of a write slot, numbered 0 to 3 (INIT, DRIVE_BUS_LOW, RELEASE_BUS,
  DONE), in the write-high family for a 1 bit and in the write-low family for a 0 bit.
\<close>

definition write_phase :: "bool \<Rightarrow> nat \<Rightarrow> OneWireState" where
  "write_phase b k =
     (if b
      then (if k = 0 then ONEWIRE_STATE_WRITE_HIGH_INIT
            else if k = 1 then ONEWIRE_STATE_WRITE_HIGH_DRIVE_BUS_LOW
            else if k = 2 then ONEWIRE_STATE_WRITE_HIGH_RELEASE_BUS
            else ONEWIRE_STATE_WRITE_HIGH_DONE)
      else (if k = 0 then ONEWIRE_STATE_WRITE_LOW_INIT
            else if k = 1 then ONEWIRE_STATE_WRITE_LOW_DRIVE_BUS_LOW
            else if k = 2 then ONEWIRE_STATE_WRITE_LOW_RELEASE_BUS
            else ONEWIRE_STATE_WRITE_LOW_DONE))"

text \<open>
  The course a byte write is expected to take, by position: position \<open>p < 32\<close> is
  phase \<open>p mod 4\<close> of the slot of bit \<open>p div 4\<close> of the byte, least significant bit
  first, in the family that the bit selects; from position 32 on the instance is idle.
\<close>

definition byte_write_state :: "uint8_t \<Rightarrow> nat \<Rightarrow> OneWireState" where
  "byte_write_state v p =
     (if p < 32 then write_phase (bit v (p div 4)) (p mod 4) else ONEWIRE_STATE_IDLE)"

text \<open>
  The HAL call made when a slot position is left: leaving INIT drives the bus low,
  leaving DRIVE_BUS_LOW releases it, the other two phases make no call.
\<close>

definition slot_calls :: "OneWireDriver \<Rightarrow> nat \<Rightarrow> hal_call list" where
  "slot_calls onewire p =
     (if p mod 4 = 0 then [HAL_GPIO_WritePin (Port onewire) (Pin onewire) GPIO_PIN_RESET]
      else if p mod 4 = 1 then [HAL_GPIO_WritePin (Port onewire) (Pin onewire) GPIO_PIN_SET]
      else [])"

text \<open>
  \<open>at_pos ow0 v p onewire\<close>: the instance is at position \<open>p\<close> of the write of byte
  \<open>v\<close> that was started on the instance \<open>ow0\<close>.
\<close>

definition at_pos :: "OneWireDriver \<Rightarrow> uint8_t \<Rightarrow> nat \<Rightarrow> OneWireDriver \<Rightarrow> bool" where
  "at_pos ow0 v p onewire \<longleftrightarrow>
     state onewire = byte_write_state v p \<and> tx_byte onewire = v \<and>
     unat (bit_index onewire) = p div 4 \<and>
     Port onewire = Port ow0 \<and> Pin onewire = Pin ow0"

text \<open>
  \<open>polls_due\<close>: no call of the run finds the instance waiting for an open deadline,
  that is, the instance is polled slowly enough for every phase to have expired.
\<close>

fun polls_due ::
  "(TickType_t \<Rightarrow> TickType_t) \<Rightarrow> poll_env list \<Rightarrow> OneWireDriver \<times> GPIO_PinState \<Rightarrow> bool" where
  "polls_due cv [] m = True"
| "polls_due cv (e # es) m =
     (\<not> deadline_open cv (fst m) e \<and> polls_due cv es (fst (onewire_process cv e m)))"

text \<open>
  The states an instance goes through when \<open>onewire_write_byte\<close> is called at tick
  \<open>now\<close> and \<open>onewire_process\<close> is then called once for each element of \<open>es\<close>.
\<close>

definition write_byte_states ::
  "(TickType_t \<Rightarrow> TickType_t) \<Rightarrow> poll_env list \<Rightarrow> OneWireDriver \<Rightarrow> uint8_t \<Rightarrow> TickType_t
     \<Rightarrow> GPIO_PinState \<Rightarrow> OneWireState list" where
  "write_byte_states cv es onewire data now sb =
     state (onewire_write_byte onewire data now)
       # poll_states cv es (onewire_write_byte onewire data now, sb)"

text \<open>A call of \<open>onewire_process\<close> at tick \<open>t\<close> with the line high.\<close>

definition poll_at :: "TickType_t \<Rightarrow> poll_env" where
  "poll_at t = \<lparr>tick_chk = t, tick_set = t, pin_level = GPIO_PIN_SET\<rparr>"

section \<open>Basic facts\<close>

lemmas delay_defs =
  WRITE_1_LOW_DELAY_def WRITE_1_RELEASE_BUS_DELAY_def WRITE_0_LOW_DELAY_def
  WRITE_0_RELEASE_BUS_DELAY_def READ_RELEASE_BUS_DELAY_def READ_SAMPLE_DELAY_def
  RESET_INIT_DELAY_def RESET_DRIVE_BUS_LOW_DELAY_def RESET_RELEASE_BUS_DELAY_def
  RESET_SAMPLE_BUS_DELAY_def

lemma unat_eqD: "unat (w :: uint8_t) = n \<Longrightarrow> w = of_nat n"
  by auto

lemma small_index_cases:
  fixes w :: uint8_t
  assumes "unat w < 8"
  shows "w = 0 \<or> w = 1 \<or> w = 2 \<or> w = 3 \<or> w = 4 \<or> w = 5 \<or> w = 6 \<or> w = 7"
proof -
  have "unat w = 0 \<or> unat w = 1 \<or> unat w = 2 \<or> unat w = 3
      \<or> unat w = 4 \<or> unat w = 5 \<or> unat w = 6 \<or> unat w = 7"
    using assms by arith
  then show ?thesis
    by (elim disjE) (drule unat_eqD, simp)+
qed

lemma process_deadline_open:
  assumes "deadline_open cv ow e" and "state ow \<noteq> ONEWIRE_STATE_RESET_SAMPLE_BUS"
  shows "onewire_process cv e (ow, sb) =
     (if state ow = ONEWIRE_STATE_READ_SAMPLE_BUS
      then ((ow, if pin_level e = GPIO_PIN_RESET then GPIO_PIN_RESET else sb), [read_pin ow])
      else ((ow, sb), []))"
  using assms
  by (cases "state ow") (simp_all add: deadline_open_def onewire_process_def)

text \<open>
  \<open>deadline_open\<close> is the waiting condition of the code: in a timed phase other than
  the reset sample window, a call leaves the state as it is exactly when the deadline
  is open.
\<close>

lemma process_stays_iff_deadline_open:
  assumes "phase_delay (state ow) \<noteq> None"
    and "state ow \<noteq> ONEWIRE_STATE_RESET_SAMPLE_BUS"
  shows "state (fst (fst (onewire_process cv e (ow, sb)))) = state ow
           \<longleftrightarrow> deadline_open cv ow e"
  using assms
  by (cases "state ow")
    (simp_all add: onewire_process_def deadline_open_def set_state_def reset_flag_def
      store_read_bit_def Let_def)

lemma poll_deadline_open:
  assumes "\<forall>e\<in>set es. deadline_open cv ow e"
    and "state ow \<noteq> ONEWIRE_STATE_RESET_SAMPLE_BUS"
  shows "onewire_poll cv es (ow, sb) =
     (if state ow = ONEWIRE_STATE_READ_SAMPLE_BUS
      then ((ow, if \<exists>e\<in>set es. pin_level e = GPIO_PIN_RESET then GPIO_PIN_RESET else sb),
            replicate (length es) (read_pin ow))
      else ((ow, sb), []))"
  using assms
proof (induction es arbitrary: sb)
  case Nil
  then show ?case by simp
next
  case (Cons e es)
  from Cons.prems have open_e: "deadline_open cv ow e"
    and open_es: "\<forall>e\<in>set es. deadline_open cv ow e"
    by simp_all
  note step = process_deadline_open [OF open_e Cons.prems(2)]
  note ih = Cons.IH [OF open_es Cons.prems(2)]
  show ?case
  proof (cases "state ow = ONEWIRE_STATE_READ_SAMPLE_BUS")
    case True
    then show ?thesis
      by (simp add: step ih Let_def)
  next
    case False
    then show ?thesis
      by (simp add: step ih Let_def)
  qed
qed

lemma onewire_poll_append:
  "onewire_poll cv (es @ fs) m =
     (let r = onewire_poll cv es m; r' = onewire_poll cv fs (fst r)
      in (fst r', snd r @ snd r'))"
  by (induction es arbitrary: m) (simp_all add: Let_def)

lemma bit_store_read_bit:
  assumes "unat (bit_index ow) < 8"
  shows "bit (rx_byte (store_read_bit ow v)) n =
     (if n = unat (bit_index ow) then v \<noteq> 0 else bit (rx_byte ow) n)"
  using assms
  by (auto simp add: store_read_bit_def bit_simps dest: bit_imp_le_length)

lemma process_read_sample_expired:
  assumes "state ow = ONEWIRE_STATE_READ_SAMPLE_BUS"
    and "is_time_expired cv ow (cv READ_SAMPLE_DELAY) (tick_chk e)"
  shows "onewire_process cv e (ow, sb) =
     ((set_state (store_read_bit ow (pin_value sb)) ONEWIRE_STATE_READ_DONE (tick_set e),
       sb), [])"
  using assms by (simp add: onewire_process_def)

text \<open>
  \<open>sampled_bus_bit\<close> is \<open>GPIO_PIN_SET\<close> whenever the instance is outside the read
  sample window and \<open>ONEWIRE_STATE_READ_DONE\<close>: every call of \<open>onewire_process\<close> keeps
  this, so an instance polled from program start enters each sample window with the
  start value.
\<close>

lemma sampled_bus_bit_restored:
  assumes "state ow \<noteq> ONEWIRE_STATE_READ_SAMPLE_BUS \<and> state ow \<noteq> ONEWIRE_STATE_READ_DONE
             \<longrightarrow> sb = GPIO_PIN_SET"
  shows "state (fst (fst (onewire_process cv e (ow, sb)))) \<noteq> ONEWIRE_STATE_READ_SAMPLE_BUS \<and>
         state (fst (fst (onewire_process cv e (ow, sb)))) \<noteq> ONEWIRE_STATE_READ_DONE
           \<longrightarrow> snd (fst (onewire_process cv e (ow, sb))) = GPIO_PIN_SET"
  using assms
  by (cases "state ow")
    (simp_all add: onewire_process_def set_state_def set_flag_def reset_flag_def
      write_high_init_body_def handle_write_bit_done_state_def set_write_init_state_def
      store_read_bit_def Let_def)

section \<open>Facts about the write phases\<close>

lemma lsb_drop_bit: "(drop_bit n (w :: uint8_t) AND 1 \<noteq> 0) = bit w n"
  by (simp add: bit_iff_odd_drop_bit and_one_eq mod_2_eq_odd)

lemma lsb_bit0: "((w :: uint8_t) AND 1 \<noteq> 0) = bit w 0"
  using lsb_drop_bit [of 0 w] by simp

lemma write_phase_inj:
  assumes "write_phase b k = write_phase b' k'" and "k < 4" and "k' < 4"
  shows "k = k' \<and> b = b'"
  using assms by (auto simp add: write_phase_def split: if_splits)

lemma write_phase_not_idle: "write_phase b k \<noteq> ONEWIRE_STATE_IDLE"
  by (simp add: write_phase_def)

lemma process_write_phase0:
  "state ow = write_phase b 0 \<Longrightarrow>
   onewire_process cv e (ow, sb) =
     ((ow\<lparr>state := write_phase b 1, timestamp := tick_set e\<rparr>, sb),
      [HAL_GPIO_WritePin (Port ow) (Pin ow) GPIO_PIN_RESET])"
  by (cases b)
    (simp_all add: write_phase_def onewire_process_def write_high_init_body_def
      set_state_def pull_low_def Let_def)

lemma process_write_phase1:
  "state ow = write_phase b 1 \<Longrightarrow> \<not> deadline_open cv ow e \<Longrightarrow>
   onewire_process cv e (ow, sb) =
     ((ow\<lparr>state := write_phase b 2, timestamp := tick_set e\<rparr>, sb),
      [HAL_GPIO_WritePin (Port ow) (Pin ow) GPIO_PIN_SET])"
  by (cases b)
    (simp_all add: write_phase_def onewire_process_def deadline_open_def
      set_state_def pull_high_def Let_def)

lemma process_write_phase2:
  "state ow = write_phase b 2 \<Longrightarrow> \<not> deadline_open cv ow e \<Longrightarrow>
   onewire_process cv e (ow, sb) =
     ((ow\<lparr>state := write_phase b 3, timestamp := tick_set e\<rparr>, sb), [])"
  by (cases b)
    (simp_all add: write_phase_def onewire_process_def deadline_open_def
      set_state_def Let_def)

lemma handle_write_bit_done_state_next:
  assumes "unat (bit_index ow) < 7"
  shows "handle_write_bit_done_state ow now =
      ow\<lparr>bit_index := bit_index ow + 1, timestamp := now,
         state := write_phase (bit (tx_byte ow) (Suc (unat (bit_index ow)))) 0\<rparr> \<and>
    unat (bit_index ow + 1) = Suc (unat (bit_index ow))"
proof -
  from assms have "unat (bit_index ow) < 8" by simp
  from small_index_cases [OF this] assms
  show ?thesis
    by (elim disjE)
      (simp_all add: handle_write_bit_done_state_def set_write_init_state_def Let_def
        word_le_nat_alt lsb_drop_bit write_phase_def numeral_2_eq_2 [symmetric])
qed

lemma handle_write_bit_done_state_last:
  assumes "unat (bit_index ow) = 7"
  shows "handle_write_bit_done_state ow now =
      ow\<lparr>state := ONEWIRE_STATE_IDLE, timestamp := now, bit_index := 0, rx_byte := 0,
         flag_reg := flag_reg ow OR 8\<rparr>"
proof -
  from assms have "bit_index ow = 7" by (auto dest: unat_eqD)
  then show ?thesis
    by (simp add: handle_write_bit_done_state_def set_state_def set_flag_def Let_def)
qed

lemma process_write_phase3:
  "state ow = write_phase b 3 \<Longrightarrow>
   onewire_process cv e (ow, sb) =
     ((handle_write_bit_done_state ow (tick_set e), sb), [])"
  by (cases b) (simp_all add: write_phase_def onewire_process_def)

lemma write_phase_open:
  assumes "state ow = write_phase b k" and "deadline_open cv ow e"
  shows "onewire_process cv e (ow, sb) = ((ow, sb), [])"
proof -
  from assms(1) have "state ow \<noteq> ONEWIRE_STATE_RESET_SAMPLE_BUS"
    and "state ow \<noteq> ONEWIRE_STATE_READ_SAMPLE_BUS"
    by (simp_all add: write_phase_def)
  with process_deadline_open [OF assms(2), of sb] show ?thesis by simp
qed

lemma write_step:
  assumes pos: "at_pos ow0 v p ow" and p: "p < 32"
  shows "(deadline_open cv ow e \<and> onewire_process cv e (ow, sb) = ((ow, sb), [])) \<or>
         (\<not> deadline_open cv ow e \<and>
          snd (onewire_process cv e (ow, sb)) = slot_calls ow0 p \<and>
          snd (fst (onewire_process cv e (ow, sb))) = sb \<and>
          state (fst (fst (onewire_process cv e (ow, sb)))) = byte_write_state v (Suc p) \<and>
          (p < 31 \<longrightarrow> at_pos ow0 v (Suc p) (fst (fst (onewire_process cv e (ow, sb))))))"
proof (cases "deadline_open cv ow e")
  case True
  from pos p have "state ow = write_phase (bit v (p div 4)) (p mod 4)"
    by (simp add: at_pos_def byte_write_state_def)
  from write_phase_open [OF this True] True show ?thesis by simp
next
  case False
  from pos p have st: "state ow = write_phase (bit v (p div 4)) (p mod 4)"
    and tx: "tx_byte ow = v" and idx: "unat (bit_index ow) = p div 4"
    and port: "Port ow = Port ow0" and pin: "Pin ow = Pin ow0"
    by (simp_all add: at_pos_def byte_write_state_def)
  have "p mod 4 = 0 \<or> p mod 4 = 1 \<or> p mod 4 = 2 \<or> p mod 4 = 3" by arith
  then show ?thesis
  proof (elim disjE)
    assume k: "p mod 4 = 0"
    with p have sp: "Suc p < 32" "Suc p div 4 = p div 4" "Suc p mod 4 = 1" by arith+
    from st k have "state ow = write_phase (bit v (p div 4)) 0" by simp
    from process_write_phase0 [OF this, of cv e sb] False p sp tx idx port pin k
    show ?thesis
      by (simp add: at_pos_def byte_write_state_def slot_calls_def)
  next
    assume k: "p mod 4 = 1"
    with p have sp: "Suc p < 32" "Suc p div 4 = p div 4" "Suc p mod 4 = 2" by arith+
    from st k have "state ow = write_phase (bit v (p div 4)) 1" by simp
    from process_write_phase1 [OF this False, of sb] False p sp tx idx port pin k
    show ?thesis
      by (simp add: at_pos_def byte_write_state_def slot_calls_def)
  next
    assume k: "p mod 4 = 2"
    with p have sp: "Suc p < 32" "Suc p div 4 = p div 4" "Suc p mod 4 = 3" by arith+
    from st k have "state ow = write_phase (bit v (p div 4)) 2" by simp
    from process_write_phase2 [OF this False, of sb] False p sp tx idx port pin k
    show ?thesis
      by (simp add: at_pos_def byte_write_state_def slot_calls_def)
  next
    assume k: "p mod 4 = 3"
    from st k have st3: "state ow = write_phase (bit v (p div 4)) 3" by simp
    note step = process_write_phase3 [OF st3, of cv e sb]
    show ?thesis
    proof (cases "p < 31")
      case True
      with p k have sp: "Suc p < 32" "Suc p div 4 = Suc (p div 4)" "Suc p mod 4 = 0"
        and small: "p div 4 < 7" by arith+
      from small idx have "unat (bit_index ow) < 7" by simp
      from handle_write_bit_done_state_next [OF this, of "tick_set e"] step
        False True sp tx idx port pin k
      show ?thesis
        by (simp add: at_pos_def byte_write_state_def slot_calls_def)
    next
      case nlt: False
      with p have p31: "p = 31" by arith
      with idx have "unat (bit_index ow) = 7" by simp
      from handle_write_bit_done_state_last [OF this, of "tick_set e"] step False p31
      show ?thesis
        by (simp add: byte_write_state_def slot_calls_def)
    qed
  qed
qed

lemma byte_write_state_not_idle: "p < 32 \<Longrightarrow> byte_write_state v p \<noteq> ONEWIRE_STATE_IDLE"
  by (simp add: byte_write_state_def write_phase_not_idle)

lemma byte_write_state_adjacent:
  assumes "p < 31"
  shows "byte_write_state v p \<noteq> byte_write_state v (Suc p)"
proof
  assume "byte_write_state v p = byte_write_state v (Suc p)"
  with assms have "write_phase (bit v (p div 4)) (p mod 4)
      = write_phase (bit v (Suc p div 4)) (Suc p mod 4)"
    by (simp add: byte_write_state_def)
  then have "p mod 4 = Suc p mod 4"
    using write_phase_inj [of "bit v (p div 4)" "p mod 4" "bit v (Suc p div 4)" "Suc p mod 4"]
    by simp
  then show False by arith
qed

lemma write_run_prefix:
  assumes "at_pos ow0 v p ow" and "p < 32"
  shows "\<exists>q. p < q \<and> q \<le> 32 \<and>
           remdups_adj (takeWhile (\<lambda>s. s \<noteq> ONEWIRE_STATE_IDLE)
             (state ow # poll_states cv es (ow, sb))) = map (byte_write_state v) [p..<q] \<and>
           (ONEWIRE_STATE_IDLE \<in> set (state ow # poll_states cv es (ow, sb)) \<longrightarrow> q = 32)"
  using assms
proof (induction es arbitrary: ow sb p)
  case Nil
  then have "state ow = byte_write_state v p" by (simp add: at_pos_def)
  with byte_write_state_not_idle [OF Nil.prems(2), of v] Nil.prems(2)
  show ?case by (intro exI [of _ "Suc p"]) simp
next
  case (Cons e es)
  let ?r = "onewire_process cv e (ow, sb)"
  let ?P = "\<lambda>s. s \<noteq> ONEWIRE_STATE_IDLE"
  from Cons.prems have here: "state ow = byte_write_state v p"
    by (simp add: at_pos_def)
  from byte_write_state_not_idle [OF Cons.prems(2), of v] here
  have busy: "state ow \<noteq> ONEWIRE_STATE_IDLE" by simp
  from write_step [OF Cons.prems, of cv e sb]
  consider (stay) "?r = ((ow, sb), [])"
    | (advance) "state (fst (fst ?r)) = byte_write_state v (Suc p)"
        "p < 31 \<longrightarrow> at_pos ow0 v (Suc p) (fst (fst ?r))"
    by blast
  then show ?case
  proof cases
    case stay
    from Cons.IH [OF Cons.prems, of sb] obtain q where q: "p < q" "q \<le> 32"
      "remdups_adj (takeWhile ?P (state ow # poll_states cv es (ow, sb)))
         = map (byte_write_state v) [p..<q]"
      "ONEWIRE_STATE_IDLE \<in> set (state ow # poll_states cv es (ow, sb)) \<longrightarrow> q = 32"
      by blast
    from q busy show ?thesis
      by (intro exI [of _ q]) (simp add: stay)
  next
    case advance
    show ?thesis
    proof (cases "p < 31")
      case True
      with advance(2) have next_pos: "at_pos ow0 v (Suc p) (fst (fst ?r))" by simp
      from True have "Suc p < 32" by simp
      from Cons.IH [OF next_pos this, of "snd (fst ?r)"] obtain q where q: "Suc p < q" "q \<le> 32"
        "remdups_adj (takeWhile ?P (state (fst (fst ?r))
            # poll_states cv es (fst (fst ?r), snd (fst ?r))))
           = map (byte_write_state v) [Suc p..<q]"
        "ONEWIRE_STATE_IDLE \<in> set (state (fst (fst ?r))
            # poll_states cv es (fst (fst ?r), snd (fst ?r))) \<longrightarrow> q = 32"
        by blast
      from q(1) have split: "[p..<q] = p # [Suc p..<q]"
        by (simp add: upt_conv_Cons)
      from byte_write_state_adjacent [OF True, of v] here advance(1)
      have differ: "state ow \<noteq> state (fst (fst ?r))" by simp
      have "remdups_adj (takeWhile ?P (state ow # poll_states cv (e # es) (ow, sb)))
          = state ow # remdups_adj (takeWhile ?P (state (fst (fst ?r))
              # poll_states cv es (fst (fst ?r), snd (fst ?r))))"
        using busy differ
        by (cases "state (fst (fst ?r)) = ONEWIRE_STATE_IDLE") (simp_all add: Let_def)
      with q here busy show ?thesis
        by (intro exI [of _ q]) (simp add: split Let_def)
    next
      case False
      with Cons.prems(2) have p31: "p = 31" by arith
      with advance(1) have "state (fst (fst ?r)) = ONEWIRE_STATE_IDLE"
        by (simp add: byte_write_state_def)
      with busy here p31 show ?thesis
        by (intro exI [of _ 32]) (simp add: Let_def)
    qed
  qed
qed

lemma write_run_due:
  assumes "at_pos ow0 v p ow" and "polls_due cv es (ow, sb)" and "p + length es \<le> 32"
  shows "poll_states cv es (ow, sb)
           = map (byte_write_state v) [Suc p..<Suc (p + length es)] \<and>
         snd (onewire_poll cv es (ow, sb))
           = concat (map (slot_calls ow0) [p..<p + length es])"
  using assms
proof (induction es arbitrary: ow p)
  case Nil
  then show ?case by simp
next
  case (Cons e es)
  let ?r = "onewire_process cv e (ow, sb)"
  from Cons.prems(3) have p: "p < 32" by simp
  from Cons.prems(2) have due: "\<not> deadline_open cv ow e"
    and rest: "polls_due cv es (fst ?r)" by simp_all
  from write_step [OF Cons.prems(1) p, of cv e sb] due
  have calls: "snd ?r = slot_calls ow0 p" and sb: "snd (fst ?r) = sb"
    and st: "state (fst (fst ?r)) = byte_write_state v (Suc p)"
    and pos: "p < 31 \<longrightarrow> at_pos ow0 v (Suc p) (fst (fst ?r))"
    by simp_all
  from sb have r: "fst ?r = (fst (fst ?r), sb)"
    by (metis prod.collapse)
  have upt1: "[Suc p..<Suc (p + length (e # es))]
      = Suc p # [Suc (Suc p)..<Suc (Suc p + length es)]"
    by (simp del: upt_Suc add: upt_conv_Cons)
  have upt2: "[p..<p + length (e # es)] = p # [Suc p..<Suc p + length es]"
    by (simp del: upt_Suc add: upt_conv_Cons)
  show ?case
  proof (cases "p < 31")
    case True
    with pos have next_pos: "at_pos ow0 v (Suc p) (fst (fst ?r))" by simp
    from rest r have rest': "polls_due cv es (fst (fst ?r), sb)" by simp
    from Cons.prems(3) have "Suc p + length es \<le> 32" by simp
    from Cons.IH [OF next_pos rest' this]
    have ih: "poll_states cv es (fst ?r)
        = map (byte_write_state v) [Suc (Suc p)..<Suc (Suc p + length es)]"
      "snd (onewire_poll cv es (fst ?r))
        = concat (map (slot_calls ow0) [Suc p..<Suc p + length es])"
      using r by simp_all
    show ?thesis
      unfolding upt1 upt2
      by (simp add: Let_def ih st calls)
  next
    case False
    from Cons.prems(3) have "p + Suc (length es) \<le> 32" by simp
    with False have "length es = 0" by arith
    then have "es = []" by simp
    then show ?thesis
      by (simp add: Let_def st calls)
  qed
qed

lemma slot_calls_byte:
  "concat (map (slot_calls ow) [0..<32]) =
     concat (replicate 8 [HAL_GPIO_WritePin (Port ow) (Pin ow) GPIO_PIN_RESET,
                          HAL_GPIO_WritePin (Port ow) (Pin ow) GPIO_PIN_SET])"
proof -
  have r: "replicate 8 x = [x, x, x, x, x, x, x, x]" for x :: "hal_call list"
    by (simp add: numeral_eq_Suc)
  show ?thesis
    unfolding r by (simp add: upt_rec slot_calls_def)
qed

lemma write_byte_at_pos: "at_pos ow v 0 (onewire_write_byte ow v t)"
  by (simp add: at_pos_def onewire_write_byte_def set_write_init_state_def
      byte_write_state_def write_phase_def lsb_bit0)

lemma byte_write_states_A5: "map (byte_write_state 0xA5) [0..<33] =
  [ONEWIRE_STATE_WRITE_HIGH_INIT, ONEWIRE_STATE_WRITE_HIGH_DRIVE_BUS_LOW,
   ONEWIRE_STATE_WRITE_HIGH_RELEASE_BUS, ONEWIRE_STATE_WRITE_HIGH_DONE,
   ONEWIRE_STATE_WRITE_LOW_INIT, ONEWIRE_STATE_WRITE_LOW_DRIVE_BUS_LOW,
   ONEWIRE_STATE_WRITE_LOW_RELEASE_BUS, ONEWIRE_STATE_WRITE_LOW_DONE,
   ONEWIRE_STATE_WRITE_HIGH_INIT, ONEWIRE_STATE_WRITE_HIGH_DRIVE_BUS_LOW,
   ONEWIRE_STATE_WRITE_HIGH_RELEASE_BUS, ONEWIRE_STATE_WRITE_HIGH_DONE,
   ONEWIRE_STATE_WRITE_LOW_INIT, ONEWIRE_STATE_WRITE_LOW_DRIVE_BUS_LOW,
   ONEWIRE_STATE_WRITE_LOW_RELEASE_BUS, ONEWIRE_STATE_WRITE_LOW_DONE,
   ONEWIRE_STATE_WRITE_LOW_INIT, ONEWIRE_STATE_WRITE_LOW_DRIVE_BUS_LOW,
   ONEWIRE_STATE_WRITE_LOW_RELEASE_BUS, ONEWIRE_STATE_WRITE_LOW_DONE,
   ONEWIRE_STATE_WRITE_HIGH_INIT, ONEWIRE_STATE_WRITE_HIGH_DRIVE_BUS_LOW,
   ONEWIRE_STATE_WRITE_HIGH_RELEASE_BUS, ONEWIRE_STATE_WRITE_HIGH_DONE,
   ONEWIRE_STATE_WRITE_LOW_INIT, ONEWIRE_STATE_WRITE_LOW_DRIVE_BUS_LOW,
   ONEWIRE_STATE_WRITE_LOW_RELEASE_BUS, ONEWIRE_STATE_WRITE_LOW_DONE,
   ONEWIRE_STATE_WRITE_HIGH_INIT, ONEWIRE_STATE_WRITE_HIGH_DRIVE_BUS_LOW,
   ONEWIRE_STATE_WRITE_HIGH_RELEASE_BUS, ONEWIRE_STATE_WRITE_HIGH_DONE,
   ONEWIRE_STATE_IDLE]"
  by (simp add: upt_rec byte_write_state_def write_phase_def )

section \<open>The dispatch of \<open>onewire_process\<close>: states without a case\<close>

text \<open>
  C1. The claim: in \<open>ONEWIRE_STATE_IDLE\<close> a call of \<open>onewire_process\<close> is a no-op.
  The \<open>switch\<close> has no case for \<open>ONEWIRE_STATE_IDLE\<close>, so the call runs the
  \<open>default\<close> branch. Evaluated on the instance that \<open>onewire_init\<close> returns: no HAL
  call is made and the buffers and the bit index keep their values, but the state
  becomes \<open>ONEWIRE_STATE_ERROR\<close>, the error flag (bit 0 of \<open>flag_reg\<close>) is set and the
  timestamp is overwritten.
\<close>

theorem C1_idle_process_enters_error:
  "onewire_process cv e (fst (onewire_init port pin), GPIO_PIN_SET) =
     ((\<lparr>Pin = pin, Port = port, state = ONEWIRE_STATE_ERROR, tx_byte = 0, rx_byte = 0,
        bit_index = 0, timestamp = tick_set e, flag_reg = 1\<rparr>, GPIO_PIN_SET), [])"
  by (simp add: onewire_process_def onewire_init_def set_state_def set_flag_def Let_def)

text \<open>
  C10. In \<open>ONEWIRE_STATE_RESET_DONE\<close>, which has no case either, the next call of
  \<open>onewire_process\<close> moves the instance to \<open>ONEWIRE_STATE_ERROR\<close> and sets the error
  flag; it makes no HAL call and changes nothing else but the timestamp.
\<close>

theorem C10_reset_done_then_error:
  "state ow = ONEWIRE_STATE_RESET_DONE \<Longrightarrow>
   onewire_process cv e (ow, sb) =
     ((ow\<lparr>state := ONEWIRE_STATE_ERROR, timestamp := tick_set e,
          flag_reg := flag_reg ow OR 1\<rparr>, sb), [])"
  by (simp add: onewire_process_def set_state_def set_flag_def)

theorem C10_reset_done_then_error_witness:
  "state \<lparr>Pin = 1, Port = 0, state = ONEWIRE_STATE_RESET_DONE, tx_byte = 0, rx_byte = 0,
          bit_index = 0, timestamp = 960, flag_reg = 2\<rparr> = ONEWIRE_STATE_RESET_DONE \<and>
   onewire_process id \<lparr>tick_chk = 961, tick_set = 961, pin_level = GPIO_PIN_SET\<rparr>
     (\<lparr>Pin = 1, Port = 0, state = ONEWIRE_STATE_RESET_DONE, tx_byte = 0, rx_byte = 0,
       bit_index = 0, timestamp = 960, flag_reg = 2\<rparr>, GPIO_PIN_SET) =
     ((\<lparr>Pin = 1, Port = 0, state = ONEWIRE_STATE_ERROR, tx_byte = 0, rx_byte = 0,
        bit_index = 0, timestamp = 961, flag_reg = 3\<rparr>, GPIO_PIN_SET), [])"
  using C10_reset_done_then_error
    [of "\<lparr>Pin = 1, Port = 0, state = ONEWIRE_STATE_RESET_DONE, tx_byte = 0, rx_byte = 0,
          bit_index = 0, timestamp = 960, flag_reg = 2\<rparr>"
        id "\<lparr>tick_chk = 961, tick_set = 961, pin_level = GPIO_PIN_SET\<rparr>" GPIO_PIN_SET]
  by simp

section \<open>The reset sample window\<close>

text \<open>
  C3. The claim: when the reset sample window expires, presence detected means the
  error flag is not set and no presence means it is set. The code tests
  \<open>get_flag(onewire, FLAG_PRESENCE_DETECTED) != 0\<close> before \<open>set_flag(onewire, FLAG_ERROR)\<close>,
  the opposite polarity. Evaluated at a 1 kHz tick with the window (410 ticks from
  timestamp 0) expired at tick 410: with the presence flag set (\<open>flag_reg = 2\<close>) the
  instance reaches \<open>ONEWIRE_STATE_RESET_DONE\<close> with the error flag set (\<open>flag_reg = 3\<close>);
  with the presence flag clear it reaches \<open>ONEWIRE_STATE_RESET_DONE\<close> with the error
  flag clear.
\<close>

theorem C3_reset_done_error_polarity:
  "onewire_process (pdMS_TO_TICKS_at 1000)
     \<lparr>tick_chk = 410, tick_set = 410, pin_level = GPIO_PIN_SET\<rparr>
     (\<lparr>Pin = 1, Port = 0, state = ONEWIRE_STATE_RESET_SAMPLE_BUS, tx_byte = 0, rx_byte = 0,
       bit_index = 0, timestamp = 0, flag_reg = 2\<rparr>, GPIO_PIN_SET) =
     ((\<lparr>Pin = 1, Port = 0, state = ONEWIRE_STATE_RESET_DONE, tx_byte = 0, rx_byte = 0,
        bit_index = 0, timestamp = 410, flag_reg = 3\<rparr>, GPIO_PIN_SET), []) \<and>
   onewire_process (pdMS_TO_TICKS_at 1000)
     \<lparr>tick_chk = 410, tick_set = 410, pin_level = GPIO_PIN_SET\<rparr>
     (\<lparr>Pin = 1, Port = 0, state = ONEWIRE_STATE_RESET_SAMPLE_BUS, tx_byte = 0, rx_byte = 0,
       bit_index = 0, timestamp = 0, flag_reg = 0\<rparr>, GPIO_PIN_SET) =
     ((\<lparr>Pin = 1, Port = 0, state = ONEWIRE_STATE_RESET_DONE, tx_byte = 0, rx_byte = 0,
        bit_index = 0, timestamp = 410, flag_reg = 0\<rparr>, GPIO_PIN_SET), [])"
  by (simp add: onewire_process_def is_time_expired_def set_state_def set_flag_def
      get_flag_def pdMS_TO_TICKS_at_def delay_defs)

text \<open>
  C4. The claim: no call of \<open>onewire_process\<close> leaves the declared phase order; a
  reset state never moves directly into a write state. In
  \<open>case ONEWIRE_STATE_RESET_SAMPLE_BUS\<close> the \<open>break\<close> stands inside the \<open>else\<close> branch,
  so a call made while the sample window is open falls through into
  \<open>case ONEWIRE_STATE_WRITE_HIGH_INIT\<close>. Evaluated at a 1 kHz tick on a reset started
  from the initialised instance (state set to \<open>ONEWIRE_STATE_RESET_INIT\<close>), polled at
  ticks 0, 480, 550 and 551: the first call inside the sample window puts the
  instance into \<open>ONEWIRE_STATE_WRITE_HIGH_DRIVE_BUS_LOW\<close>, and it drives the bus low.
\<close>

theorem C4_reset_sample_falls_into_write:
  "poll_states (pdMS_TO_TICKS_at 1000)
     [\<lparr>tick_chk = 0, tick_set = 0, pin_level = GPIO_PIN_SET\<rparr>,
      \<lparr>tick_chk = 480, tick_set = 480, pin_level = GPIO_PIN_SET\<rparr>,
      \<lparr>tick_chk = 550, tick_set = 550, pin_level = GPIO_PIN_SET\<rparr>,
      \<lparr>tick_chk = 551, tick_set = 551, pin_level = GPIO_PIN_SET\<rparr>]
     ((fst (onewire_init 0 1))\<lparr>state := ONEWIRE_STATE_RESET_INIT\<rparr>, GPIO_PIN_SET) =
     [ONEWIRE_STATE_RESET_DRIVE_BUS_LOW, ONEWIRE_STATE_RESET_RELEASE_BUS,
      ONEWIRE_STATE_RESET_SAMPLE_BUS, ONEWIRE_STATE_WRITE_HIGH_DRIVE_BUS_LOW] \<and>
   onewire_process (pdMS_TO_TICKS_at 1000)
     \<lparr>tick_chk = 551, tick_set = 551, pin_level = GPIO_PIN_SET\<rparr>
     (\<lparr>Pin = 1, Port = 0, state = ONEWIRE_STATE_RESET_SAMPLE_BUS, tx_byte = 0, rx_byte = 0,
       bit_index = 0, timestamp = 550, flag_reg = 0\<rparr>, GPIO_PIN_SET) =
     ((\<lparr>Pin = 1, Port = 0, state = ONEWIRE_STATE_WRITE_HIGH_DRIVE_BUS_LOW, tx_byte = 0,
        rx_byte = 0, bit_index = 0, timestamp = 551, flag_reg = 0\<rparr>, GPIO_PIN_SET),
      [HAL_GPIO_ReadPin 0 1, HAL_GPIO_WritePin 0 1 GPIO_PIN_RESET])"
  by (simp add: onewire_process_def onewire_init_def is_time_expired_def set_state_def
      set_flag_def reset_flag_def get_flag_def pdMS_TO_TICKS_at_def delay_defs
      write_high_init_body_def read_pin_def pull_low_def Let_def)

section \<open>Deadlines\<close>

text \<open>
  C9. The claim: a phase is expired exactly when \<open>now >= timestamp + converted_delay\<close>,
  the delay constant being converted to ticks once. \<open>onewire_process\<close> passes
  \<open>pdMS_TO_TICKS(constant)\<close> to \<open>is_time_expired\<close>, which applies \<open>pdMS_TO_TICKS\<close> to its
  argument again: the deadline is \<open>timestamp + pdMS_TO_TICKS(pdMS_TO_TICKS(constant))\<close>.
  Evaluated at a 100 Hz tick in \<open>ONEWIRE_STATE_RESET_DRIVE_BUS_LOW\<close> (constant 480):
  converted once the delay is 48 ticks, and at tick 4 after timestamp 0 the deadline
  \<open>0 + 48\<close> has not been reached; the code converts 48 again to 4 ticks, finds the
  phase expired and releases the bus.
\<close>

theorem C9_delay_converted_twice:
  "pdMS_TO_TICKS_at 100 RESET_DRIVE_BUS_LOW_DELAY = 48 \<and>
   \<not> (0 + pdMS_TO_TICKS_at 100 RESET_DRIVE_BUS_LOW_DELAY \<le> (4 :: TickType_t)) \<and>
   onewire_process (pdMS_TO_TICKS_at 100)
     \<lparr>tick_chk = 4, tick_set = 4, pin_level = GPIO_PIN_SET\<rparr>
     (\<lparr>Pin = 1, Port = 0, state = ONEWIRE_STATE_RESET_DRIVE_BUS_LOW, tx_byte = 0,
       rx_byte = 0, bit_index = 0, timestamp = 0, flag_reg = 0\<rparr>, GPIO_PIN_SET) =
     ((\<lparr>Pin = 1, Port = 0, state = ONEWIRE_STATE_RESET_RELEASE_BUS, tx_byte = 0,
        rx_byte = 0, bit_index = 0, timestamp = 4, flag_reg = 0\<rparr>, GPIO_PIN_SET),
      [HAL_GPIO_WritePin 0 1 GPIO_PIN_SET])"
  by (simp add: onewire_process_def is_time_expired_def set_state_def pull_high_def
      pdMS_TO_TICKS_at_def delay_defs)

section \<open>Completion of a bit\<close>

text \<open>
  C6. When the eighth bit of a byte write is in its DONE state (\<open>bit_index = 7\<close> in
  \<open>ONEWIRE_STATE_WRITE_HIGH_DONE\<close> or \<open>ONEWIRE_STATE_WRITE_LOW_DONE\<close>), the call of
  \<open>onewire_process\<close> sets \<open>bit_index\<close> to 0, clears \<open>rx_byte\<close>, sets the byte-sent flag
  (bit 3 of \<open>flag_reg\<close>) and returns the state to \<open>ONEWIRE_STATE_IDLE\<close>; it makes no HAL
  call and changes nothing else but the timestamp.
\<close>

theorem C6_eighth_bit_done:
  "state ow = ONEWIRE_STATE_WRITE_HIGH_DONE \<or> state ow = ONEWIRE_STATE_WRITE_LOW_DONE \<Longrightarrow>
   bit_index ow = 7 \<Longrightarrow>
   onewire_process cv e (ow, sb) =
     ((ow\<lparr>state := ONEWIRE_STATE_IDLE, timestamp := tick_set e, bit_index := 0,
          rx_byte := 0, flag_reg := flag_reg ow OR 8\<rparr>, sb), [])"
  apply (erule disjE)
   apply (simp_all add: onewire_process_def set_state_def set_flag_def
      handle_write_bit_done_state_def Let_def)
  done

theorem C6_eighth_bit_done_witness:
  "(state \<lparr>Pin = 1, Port = 0, state = ONEWIRE_STATE_WRITE_LOW_DONE, tx_byte = 0x5A,
           rx_byte = 0x33, bit_index = 7, timestamp = 500, flag_reg = 0\<rparr>
      = ONEWIRE_STATE_WRITE_HIGH_DONE \<or>
    state \<lparr>Pin = 1, Port = 0, state = ONEWIRE_STATE_WRITE_LOW_DONE, tx_byte = 0x5A,
           rx_byte = 0x33, bit_index = 7, timestamp = 500, flag_reg = 0\<rparr>
      = ONEWIRE_STATE_WRITE_LOW_DONE) \<and>
   bit_index \<lparr>Pin = 1, Port = 0, state = ONEWIRE_STATE_WRITE_LOW_DONE, tx_byte = 0x5A,
              rx_byte = 0x33, bit_index = 7, timestamp = 500, flag_reg = 0\<rparr> = 7 \<and>
   onewire_process id \<lparr>tick_chk = 501, tick_set = 502, pin_level = GPIO_PIN_SET\<rparr>
     (\<lparr>Pin = 1, Port = 0, state = ONEWIRE_STATE_WRITE_LOW_DONE, tx_byte = 0x5A,
       rx_byte = 0x33, bit_index = 7, timestamp = 500, flag_reg = 0\<rparr>, GPIO_PIN_SET) =
     ((\<lparr>Pin = 1, Port = 0, state = ONEWIRE_STATE_IDLE, tx_byte = 0x5A, rx_byte = 0,
        bit_index = 0, timestamp = 502, flag_reg = 8\<rparr>, GPIO_PIN_SET), [])"
  using C6_eighth_bit_done
    [of "\<lparr>Pin = 1, Port = 0, state = ONEWIRE_STATE_WRITE_LOW_DONE, tx_byte = 0x5A,
          rx_byte = 0x33, bit_index = 7, timestamp = 500, flag_reg = 0\<rparr>"
        id "\<lparr>tick_chk = 501, tick_set = 502, pin_level = GPIO_PIN_SET\<rparr>" GPIO_PIN_SET]
  by simp

text \<open>
  C8. When a bit read is in \<open>ONEWIRE_STATE_READ_DONE\<close> with \<open>bit_index\<close> in 0..7, the
  call of \<open>onewire_process\<close> advances \<open>bit_index\<close> by one; while fewer than 8 bits are
  complete (\<open>bit_index < 7\<close> before the call) the state becomes
  \<open>ONEWIRE_STATE_READ_INIT\<close>; at the eighth bit the byte-received flag (bit 2 of
  \<open>flag_reg\<close>) is set, \<open>bit_index\<close> is reset to 0 and the state returns to
  \<open>ONEWIRE_STATE_IDLE\<close>. In both cases \<open>sampled_bus_bit\<close> is put back to
  \<open>GPIO_PIN_SET\<close> and no HAL call is made.
\<close>

theorem C8_read_bit_done:
  "state ow = ONEWIRE_STATE_READ_DONE \<Longrightarrow> unat (bit_index ow) < 8 \<Longrightarrow>
   onewire_process cv e (ow, sb) =
     (if unat (bit_index ow) < 7
      then ((ow\<lparr>state := ONEWIRE_STATE_READ_INIT, timestamp := tick_set e,
                bit_index := bit_index ow + 1\<rparr>, GPIO_PIN_SET), [])
      else ((ow\<lparr>state := ONEWIRE_STATE_IDLE, timestamp := tick_set e, bit_index := 0,
                flag_reg := flag_reg ow OR 4\<rparr>, GPIO_PIN_SET), []))"
  apply (drule small_index_cases)
  apply (elim disjE)
         apply (simp_all add: onewire_process_def set_state_def set_flag_def Let_def
      word_le_nat_alt)
  done

theorem C8_read_bit_done_witness:
  "state \<lparr>Pin = 1, Port = 0, state = ONEWIRE_STATE_READ_DONE, tx_byte = 0, rx_byte = 0x15,
          bit_index = 4, timestamp = 300, flag_reg = 0\<rparr> = ONEWIRE_STATE_READ_DONE \<and>
   unat (bit_index \<lparr>Pin = 1, Port = 0, state = ONEWIRE_STATE_READ_DONE, tx_byte = 0,
          rx_byte = 0x15, bit_index = 4, timestamp = 300, flag_reg = 0\<rparr>) < 8 \<and>
   onewire_process id \<lparr>tick_chk = 301, tick_set = 301, pin_level = GPIO_PIN_SET\<rparr>
     (\<lparr>Pin = 1, Port = 0, state = ONEWIRE_STATE_READ_DONE, tx_byte = 0, rx_byte = 0x15,
       bit_index = 4, timestamp = 300, flag_reg = 0\<rparr>, GPIO_PIN_RESET) =
     ((\<lparr>Pin = 1, Port = 0, state = ONEWIRE_STATE_READ_INIT, tx_byte = 0, rx_byte = 0x15,
        bit_index = 5, timestamp = 301, flag_reg = 0\<rparr>, GPIO_PIN_SET), []) \<and>
   state \<lparr>Pin = 1, Port = 0, state = ONEWIRE_STATE_READ_DONE, tx_byte = 0, rx_byte = 0x95,
          bit_index = 7, timestamp = 300, flag_reg = 0\<rparr> = ONEWIRE_STATE_READ_DONE \<and>
   unat (bit_index \<lparr>Pin = 1, Port = 0, state = ONEWIRE_STATE_READ_DONE, tx_byte = 0,
          rx_byte = 0x95, bit_index = 7, timestamp = 300, flag_reg = 0\<rparr>) < 8 \<and>
   onewire_process id \<lparr>tick_chk = 301, tick_set = 301, pin_level = GPIO_PIN_SET\<rparr>
     (\<lparr>Pin = 1, Port = 0, state = ONEWIRE_STATE_READ_DONE, tx_byte = 0, rx_byte = 0x95,
       bit_index = 7, timestamp = 300, flag_reg = 0\<rparr>, GPIO_PIN_RESET) =
     ((\<lparr>Pin = 1, Port = 0, state = ONEWIRE_STATE_IDLE, tx_byte = 0, rx_byte = 0x95,
        bit_index = 0, timestamp = 301, flag_reg = 4\<rparr>, GPIO_PIN_SET), [])"
  using C8_read_bit_done
    [of "\<lparr>Pin = 1, Port = 0, state = ONEWIRE_STATE_READ_DONE, tx_byte = 0, rx_byte = 0x15,
          bit_index = 4, timestamp = 300, flag_reg = 0\<rparr>"
        id "\<lparr>tick_chk = 301, tick_set = 301, pin_level = GPIO_PIN_SET\<rparr>" GPIO_PIN_RESET]
    C8_read_bit_done
    [of "\<lparr>Pin = 1, Port = 0, state = ONEWIRE_STATE_READ_DONE, tx_byte = 0, rx_byte = 0x95,
          bit_index = 7, timestamp = 300, flag_reg = 0\<rparr>"
        id "\<lparr>tick_chk = 301, tick_set = 301, pin_level = GPIO_PIN_SET\<rparr>" GPIO_PIN_RESET]
  by simp

section \<open>Waiting for a deadline\<close>

text \<open>
  C2, as stated: in every timed phase whose deadline has not elapsed, calls of
  \<open>onewire_process\<close> make no bus action (no drive-low, no release, no sample) and
  change nothing. This fails in the read sample window, where the code samples the pin
  on every call made while the window is open: at a 1 kHz tick, in
  \<open>ONEWIRE_STATE_READ_SAMPLE_BUS\<close> with timestamp 100 (window open until tick 155), the
  call at tick 110 with the line low calls \<open>HAL_GPIO_ReadPin\<close> and clears
  \<open>sampled_bus_bit\<close>.
\<close>

theorem C2_counterexample:
  "deadline_open (pdMS_TO_TICKS_at 1000)
     \<lparr>Pin = 1, Port = 0, state = ONEWIRE_STATE_READ_SAMPLE_BUS, tx_byte = 0, rx_byte = 0,
       bit_index = 0, timestamp = 100, flag_reg = 0\<rparr>
     \<lparr>tick_chk = 110, tick_set = 110, pin_level = GPIO_PIN_RESET\<rparr> \<and>
   onewire_process (pdMS_TO_TICKS_at 1000)
     \<lparr>tick_chk = 110, tick_set = 110, pin_level = GPIO_PIN_RESET\<rparr>
     (\<lparr>Pin = 1, Port = 0, state = ONEWIRE_STATE_READ_SAMPLE_BUS, tx_byte = 0, rx_byte = 0,
       bit_index = 0, timestamp = 100, flag_reg = 0\<rparr>, GPIO_PIN_SET) =
     ((\<lparr>Pin = 1, Port = 0, state = ONEWIRE_STATE_READ_SAMPLE_BUS, tx_byte = 0, rx_byte = 0,
        bit_index = 0, timestamp = 100, flag_reg = 0\<rparr>, GPIO_PIN_RESET),
      [HAL_GPIO_ReadPin 0 1])"
  by (simp add: deadline_open_def onewire_process_def is_time_expired_def read_pin_def
      pdMS_TO_TICKS_at_def delay_defs)

text \<open>
  C2, amended: in every timed phase other than the reset sample window, while every
  call finds the deadline not yet expired, any number of calls of \<open>onewire_process\<close>
  leave the instance unchanged and never drive the bus low or release it. Outside the
  read sample window they make no HAL call at all and leave \<open>sampled_bus_bit\<close>
  unchanged; inside the read sample window each call samples the pin once, and
  \<open>sampled_bus_bit\<close> becomes \<open>GPIO_PIN_RESET\<close> once a sample is low.
\<close>

theorem C2_waiting_changes_nothing:
  "\<forall>e\<in>set es. deadline_open cv ow e \<Longrightarrow>
   state ow \<noteq> ONEWIRE_STATE_RESET_SAMPLE_BUS \<Longrightarrow>
   onewire_poll cv es (ow, sb) =
     (if state ow = ONEWIRE_STATE_READ_SAMPLE_BUS
      then ((ow, if \<exists>e\<in>set es. pin_level e = GPIO_PIN_RESET then GPIO_PIN_RESET else sb),
            replicate (length es) (HAL_GPIO_ReadPin (Port ow) (Pin ow)))
      else ((ow, sb), []))"
  using poll_deadline_open [of es cv ow sb] by (simp add: read_pin_def)

theorem C2_waiting_changes_nothing_witness:
  "deadline_open (pdMS_TO_TICKS_at 1000)
     \<lparr>Pin = 1, Port = 0, state = ONEWIRE_STATE_WRITE_LOW_DRIVE_BUS_LOW, tx_byte = 0xA5,
       rx_byte = 0, bit_index = 1, timestamp = 1000, flag_reg = 0\<rparr>
     \<lparr>tick_chk = 1001, tick_set = 1001, pin_level = GPIO_PIN_RESET\<rparr> \<and>
   deadline_open (pdMS_TO_TICKS_at 1000)
     \<lparr>Pin = 1, Port = 0, state = ONEWIRE_STATE_WRITE_LOW_DRIVE_BUS_LOW, tx_byte = 0xA5,
       rx_byte = 0, bit_index = 1, timestamp = 1000, flag_reg = 0\<rparr>
     \<lparr>tick_chk = 1059, tick_set = 1059, pin_level = GPIO_PIN_RESET\<rparr> \<and>
   onewire_poll (pdMS_TO_TICKS_at 1000)
     [\<lparr>tick_chk = 1001, tick_set = 1001, pin_level = GPIO_PIN_RESET\<rparr>,
      \<lparr>tick_chk = 1059, tick_set = 1059, pin_level = GPIO_PIN_RESET\<rparr>]
     (\<lparr>Pin = 1, Port = 0, state = ONEWIRE_STATE_WRITE_LOW_DRIVE_BUS_LOW, tx_byte = 0xA5,
       rx_byte = 0, bit_index = 1, timestamp = 1000, flag_reg = 0\<rparr>, GPIO_PIN_SET) =
     ((\<lparr>Pin = 1, Port = 0, state = ONEWIRE_STATE_WRITE_LOW_DRIVE_BUS_LOW, tx_byte = 0xA5,
        rx_byte = 0, bit_index = 1, timestamp = 1000, flag_reg = 0\<rparr>, GPIO_PIN_SET), [])"
  using C2_waiting_changes_nothing
    [of "[\<lparr>tick_chk = 1001, tick_set = 1001, pin_level = GPIO_PIN_RESET\<rparr>,
          \<lparr>tick_chk = 1059, tick_set = 1059, pin_level = GPIO_PIN_RESET\<rparr>]"
        "pdMS_TO_TICKS_at 1000"
        "\<lparr>Pin = 1, Port = 0, state = ONEWIRE_STATE_WRITE_LOW_DRIVE_BUS_LOW, tx_byte = 0xA5,
          rx_byte = 0, bit_index = 1, timestamp = 1000, flag_reg = 0\<rparr>"
        GPIO_PIN_SET]
  by (simp add: deadline_open_def is_time_expired_def pdMS_TO_TICKS_at_def delay_defs)

section \<open>Reading a bit\<close>

text \<open>
  A read sample window, for any value that \<open>sampled_bus_bit\<close> has when the window
  is entered: the instance is in \<open>ONEWIRE_STATE_READ_SAMPLE_BUS\<close> with \<open>bit_index\<close> in
  0..7, the calls \<open>es\<close> find the window open and the call \<open>e'\<close> finds it expired. Then
  the instance is in \<open>ONEWIRE_STATE_READ_DONE\<close> with \<open>bit_index\<close> unchanged, the other
  bits of \<open>rx_byte\<close> are unchanged, the pin was sampled once per call inside the window
  and not at the expiry, and bit \<open>bit_index\<close> of \<open>rx_byte\<close> is 1 exactly when
  \<open>sampled_bus_bit\<close> was \<open>GPIO_PIN_SET\<close> at entry and every sample was high. So a low
  sample always records 0, and samples that are all high record 1 only if the variable
  had its start value.
\<close>

lemma read_window_recorded_bit:
  assumes "state ow = ONEWIRE_STATE_READ_SAMPLE_BUS"
    and "unat (bit_index ow) < 8"
    and "\<forall>e\<in>set es. \<not> is_time_expired cv ow (cv READ_SAMPLE_DELAY) (tick_chk e)"
    and "is_time_expired cv ow (cv READ_SAMPLE_DELAY) (tick_chk e')"
  shows "state (fst (fst (onewire_poll cv (es @ [e']) (ow, sb))))
           = ONEWIRE_STATE_READ_DONE \<and>
         bit_index (fst (fst (onewire_poll cv (es @ [e']) (ow, sb))))
           = bit_index ow \<and>
         (\<forall>n. bit (rx_byte (fst (fst (onewire_poll cv (es @ [e']) (ow, sb))))) n =
              (if n = unat (bit_index ow)
               then sb = GPIO_PIN_SET \<and> (\<forall>e\<in>set es. pin_level e = GPIO_PIN_SET)
               else bit (rx_byte ow) n)) \<and>
         snd (onewire_poll cv (es @ [e']) (ow, sb))
           = replicate (length es) (HAL_GPIO_ReadPin (Port ow) (Pin ow))"
proof -
  let ?sb = "if \<exists>e\<in>set es. pin_level e = GPIO_PIN_RESET then GPIO_PIN_RESET else sb"
  have window_open: "\<forall>e\<in>set es. deadline_open cv ow e"
    using assms(1,3) by (simp add: deadline_open_def)
  have inside: "onewire_poll cv es (ow, sb) =
      ((ow, ?sb), replicate (length es) (read_pin ow))"
    using poll_deadline_open [OF window_open, of sb] assms(1) by simp
  have expiry: "onewire_process cv e' (ow, ?sb) =
      ((set_state (store_read_bit ow (pin_value ?sb)) ONEWIRE_STATE_READ_DONE (tick_set e'),
        ?sb), [])"
    by (rule process_read_sample_expired [OF assms(1,4)])
  have whole: "onewire_poll cv (es @ [e']) (ow, sb) =
      ((set_state (store_read_bit ow (pin_value ?sb)) ONEWIRE_STATE_READ_DONE (tick_set e'),
        ?sb), replicate (length es) (read_pin ow))"
    by (simp add: onewire_poll_append inside expiry Let_def)
  have level: "(pin_value ?sb \<noteq> 0)
      = (sb = GPIO_PIN_SET \<and> (\<forall>e\<in>set es. pin_level e = GPIO_PIN_SET))"
  proof (cases "\<exists>e\<in>set es. pin_level e = GPIO_PIN_RESET")
    case True
    then obtain e where "e \<in> set es" and "pin_level e = GPIO_PIN_RESET"
      by blast
    then have "\<not> (\<forall>e\<in>set es. pin_level e = GPIO_PIN_SET)"
      by (metis GPIO_PinState.distinct(1))
    with True show ?thesis by simp
  next
    case False
    then have "\<forall>e\<in>set es. pin_level e = GPIO_PIN_SET"
      by (metis GPIO_PinState.exhaust)
    with False show ?thesis by (cases sb) simp_all
  qed
  have bits: "bit (rx_byte (store_read_bit ow (pin_value ?sb))) n =
      (if n = unat (bit_index ow)
       then sb = GPIO_PIN_SET \<and> (\<forall>e\<in>set es. pin_level e = GPIO_PIN_SET)
       else bit (rx_byte ow) n)" for n
    using bit_store_read_bit [OF assms(2), of "pin_value ?sb" n] level by simp
  have idx: "bit_index (store_read_bit ow (pin_value ?sb)) = bit_index ow"
    by (simp add: store_read_bit_def)
  show ?thesis
    unfolding whole
    by (simp add: set_state_def bits idx read_pin_def)
qed

text \<open>
  C7. The claim: in a bit read, a low sample inside the sample window records a 0 at
  \<open>bit_index\<close>, and samples that are all high record a 1. The sampled value is kept
  in the file-scope variable \<open>sampled_bus_bit\<close>, which all instances share and which
  only \<open>ONEWIRE_STATE_READ_DONE\<close> puts back to \<open>GPIO_PIN_SET\<close>. Evaluated at a 1 kHz
  tick on two instances initialised by \<open>onewire_init\<close> (pins 2 and 1), each started on
  a read (state set to \<open>ONEWIRE_STATE_READ_INIT\<close>), from the start value
  \<open>GPIO_PIN_SET\<close>. The instance on pin 2 is polled at ticks 0, 6, 15 and 20 and is then
  in its sample window (open until tick 70), its sample high. The instance on pin 1
  is polled at ticks 30, 36, 45 and 50; its sample at tick 50 is low and clears
  \<open>sampled_bus_bit\<close>. The instance on pin 2 samples high again at tick 60, and at tick
  70 its window expires: every sample on pin 2 was high, yet the bit recorded at
  \<open>bit_index = 0\<close> is 0 (\<open>rx_byte = 0\<close>, not 1).
\<close>

theorem C7_shared_sample_bit_records_zero:
  "onewire_poll (pdMS_TO_TICKS_at 1000) [poll_at 0, poll_at 6, poll_at 15, poll_at 20]
     ((fst (onewire_init 0 2))\<lparr>state := ONEWIRE_STATE_READ_INIT\<rparr>, GPIO_PIN_SET) =
     ((\<lparr>Pin = 2, Port = 0, state = ONEWIRE_STATE_READ_SAMPLE_BUS, tx_byte = 0, rx_byte = 0,
        bit_index = 0, timestamp = 15, flag_reg = 0\<rparr>, GPIO_PIN_SET),
      [HAL_GPIO_WritePin 0 2 GPIO_PIN_RESET, HAL_GPIO_WritePin 0 2 GPIO_PIN_SET,
       HAL_GPIO_ReadPin 0 2]) \<and>
   onewire_poll (pdMS_TO_TICKS_at 1000)
     [poll_at 30, poll_at 36, poll_at 45,
      \<lparr>tick_chk = 50, tick_set = 50, pin_level = GPIO_PIN_RESET\<rparr>]
     ((fst (onewire_init 0 1))\<lparr>state := ONEWIRE_STATE_READ_INIT\<rparr>, GPIO_PIN_SET) =
     ((\<lparr>Pin = 1, Port = 0, state = ONEWIRE_STATE_READ_SAMPLE_BUS, tx_byte = 0, rx_byte = 0,
        bit_index = 0, timestamp = 45, flag_reg = 0\<rparr>, GPIO_PIN_RESET),
      [HAL_GPIO_WritePin 0 1 GPIO_PIN_RESET, HAL_GPIO_WritePin 0 1 GPIO_PIN_SET,
       HAL_GPIO_ReadPin 0 1]) \<and>
   onewire_poll (pdMS_TO_TICKS_at 1000) [poll_at 60, poll_at 70]
     (\<lparr>Pin = 2, Port = 0, state = ONEWIRE_STATE_READ_SAMPLE_BUS, tx_byte = 0, rx_byte = 0,
       bit_index = 0, timestamp = 15, flag_reg = 0\<rparr>, GPIO_PIN_RESET) =
     ((\<lparr>Pin = 2, Port = 0, state = ONEWIRE_STATE_READ_DONE, tx_byte = 0, rx_byte = 0,
        bit_index = 0, timestamp = 70, flag_reg = 0\<rparr>, GPIO_PIN_RESET),
      [HAL_GPIO_ReadPin 0 2])"
  by code_simp

section \<open>Writing a byte\<close>

text \<open>
  C5. \<open>onewire_write_byte\<close> is called with the byte \<open>v\<close> and the instance is then
  polled with any sequence of calls of \<open>onewire_process\<close>. Until the instance is idle
  again, the states it goes through (repeated states of a waiting instance counted
  once) are an initial part of the 32 slot phases of \<open>v\<close>: eight slots of four phases,
  slot \<open>i\<close> in the write-high family if bit \<open>i\<close> of \<open>v\<close> is set and in the write-low
  family if it is clear, least significant bit first; and once the instance has
  reached \<open>ONEWIRE_STATE_IDLE\<close> it has gone through all 32. When no call finds a
  deadline open, 32 calls take the instance through the 32 phases to
  \<open>ONEWIRE_STATE_IDLE\<close>, and the bus is driven low and released exactly eight times.
\<close>

theorem C5_write_byte_lsb_first:
  "(\<exists>q. 0 < q \<and> q \<le> 32 \<and>
      remdups_adj (takeWhile (\<lambda>s. s \<noteq> ONEWIRE_STATE_IDLE)
        (write_byte_states cv es ow v t sb)) = map (byte_write_state v) [0..<q] \<and>
      (ONEWIRE_STATE_IDLE \<in> set (write_byte_states cv es ow v t sb) \<longrightarrow> q = 32)) \<and>
   (polls_due cv es (onewire_write_byte ow v t, sb) \<and> length es = 32 \<longrightarrow>
      write_byte_states cv es ow v t sb = map (byte_write_state v) [0..<33] \<and>
      snd (onewire_poll cv es (onewire_write_byte ow v t, sb)) =
        concat (replicate 8 [HAL_GPIO_WritePin (Port ow) (Pin ow) GPIO_PIN_RESET,
                             HAL_GPIO_WritePin (Port ow) (Pin ow) GPIO_PIN_SET]))"
proof (intro conjI impI)
  show "\<exists>q. 0 < q \<and> q \<le> 32 \<and>
      remdups_adj (takeWhile (\<lambda>s. s \<noteq> ONEWIRE_STATE_IDLE)
        (write_byte_states cv es ow v t sb)) = map (byte_write_state v) [0..<q] \<and>
      (ONEWIRE_STATE_IDLE \<in> set (write_byte_states cv es ow v t sb) \<longrightarrow> q = 32)"
    unfolding write_byte_states_def
    by (rule write_run_prefix [OF write_byte_at_pos]) simp
next
  assume due: "polls_due cv es (onewire_write_byte ow v t, sb) \<and> length es = 32"
  then have run: "poll_states cv es (onewire_write_byte ow v t, sb)
        = map (byte_write_state v) [Suc 0..<33]"
    and calls: "snd (onewire_poll cv es (onewire_write_byte ow v t, sb))
        = concat (map (slot_calls ow) [0..<32])"
    using write_run_due [OF write_byte_at_pos, of cv es ow v t sb] by simp_all
  have first: "state (onewire_write_byte ow v t) = byte_write_state v 0"
    using write_byte_at_pos [of ow v t] by (simp add: at_pos_def)
  have "[0..<33] = 0 # [Suc 0..<33]"
    by (rule upt_conv_Cons) simp
  with run first
  show "write_byte_states cv es ow v t sb = map (byte_write_state v) [0..<33]"
    by (simp add: write_byte_states_def)
  from calls
  show "snd (onewire_poll cv es (onewire_write_byte ow v t, sb)) =
        concat (replicate 8 [HAL_GPIO_WritePin (Port ow) (Pin ow) GPIO_PIN_RESET,
                             HAL_GPIO_WritePin (Port ow) (Pin ow) GPIO_PIN_SET])"
    by (simp only: slot_calls_byte)
qed

theorem C5_write_byte_lsb_first_witness:
  "polls_due (pdMS_TO_TICKS_at 1000)
     (map poll_at [100, 200, 300, 400, 500, 600, 700, 800, 900, 1000, 1100, 1200, 1300,
        1400, 1500, 1600, 1700, 1800, 1900, 2000, 2100, 2200, 2300, 2400, 2500, 2600,
        2700, 2800, 2900, 3000, 3100, 3200])
     (onewire_write_byte (fst (onewire_init 0 1)) 0xA5 0, GPIO_PIN_SET) \<and>
   length (map poll_at [100, 200, 300, 400, 500, 600, 700, 800, 900, 1000, 1100, 1200,
        1300, 1400, 1500, 1600, 1700, 1800, 1900, 2000, 2100, 2200, 2300, 2400, 2500,
        2600, 2700, 2800, 2900, 3000, 3100, 3200]) = 32 \<and>
   write_byte_states (pdMS_TO_TICKS_at 1000)
     (map poll_at [100, 200, 300, 400, 500, 600, 700, 800, 900, 1000, 1100, 1200, 1300,
        1400, 1500, 1600, 1700, 1800, 1900, 2000, 2100, 2200, 2300, 2400, 2500, 2600,
        2700, 2800, 2900, 3000, 3100, 3200])
     (fst (onewire_init 0 1)) 0xA5 0 GPIO_PIN_SET =
     [ONEWIRE_STATE_WRITE_HIGH_INIT, ONEWIRE_STATE_WRITE_HIGH_DRIVE_BUS_LOW,
      ONEWIRE_STATE_WRITE_HIGH_RELEASE_BUS, ONEWIRE_STATE_WRITE_HIGH_DONE,
      ONEWIRE_STATE_WRITE_LOW_INIT, ONEWIRE_STATE_WRITE_LOW_DRIVE_BUS_LOW,
      ONEWIRE_STATE_WRITE_LOW_RELEASE_BUS, ONEWIRE_STATE_WRITE_LOW_DONE,
      ONEWIRE_STATE_WRITE_HIGH_INIT, ONEWIRE_STATE_WRITE_HIGH_DRIVE_BUS_LOW,
      ONEWIRE_STATE_WRITE_HIGH_RELEASE_BUS, ONEWIRE_STATE_WRITE_HIGH_DONE,
      ONEWIRE_STATE_WRITE_LOW_INIT, ONEWIRE_STATE_WRITE_LOW_DRIVE_BUS_LOW,
      ONEWIRE_STATE_WRITE_LOW_RELEASE_BUS, ONEWIRE_STATE_WRITE_LOW_DONE,
      ONEWIRE_STATE_WRITE_LOW_INIT, ONEWIRE_STATE_WRITE_LOW_DRIVE_BUS_LOW,
      ONEWIRE_STATE_WRITE_LOW_RELEASE_BUS, ONEWIRE_STATE_WRITE_LOW_DONE,
      ONEWIRE_STATE_WRITE_HIGH_INIT, ONEWIRE_STATE_WRITE_HIGH_DRIVE_BUS_LOW,
      ONEWIRE_STATE_WRITE_HIGH_RELEASE_BUS, ONEWIRE_STATE_WRITE_HIGH_DONE,
      ONEWIRE_STATE_WRITE_LOW_INIT, ONEWIRE_STATE_WRITE_LOW_DRIVE_BUS_LOW,
      ONEWIRE_STATE_WRITE_LOW_RELEASE_BUS, ONEWIRE_STATE_WRITE_LOW_DONE,
      ONEWIRE_STATE_WRITE_HIGH_INIT, ONEWIRE_STATE_WRITE_HIGH_DRIVE_BUS_LOW,
      ONEWIRE_STATE_WRITE_HIGH_RELEASE_BUS, ONEWIRE_STATE_WRITE_HIGH_DONE,
      ONEWIRE_STATE_IDLE] \<and>
   snd (onewire_poll (pdMS_TO_TICKS_at 1000)
     (map poll_at [100, 200, 300, 400, 500, 600, 700, 800, 900, 1000, 1100, 1200, 1300,
        1400, 1500, 1600, 1700, 1800, 1900, 2000, 2100, 2200, 2300, 2400, 2500, 2600,
        2700, 2800, 2900, 3000, 3100, 3200])
     (onewire_write_byte (fst (onewire_init 0 1)) 0xA5 0, GPIO_PIN_SET)) =
     concat (replicate 8 [HAL_GPIO_WritePin 0 1 GPIO_PIN_RESET,
                          HAL_GPIO_WritePin 0 1 GPIO_PIN_SET])"
proof -
  let ?es = "map poll_at [100, 200, 300, 400, 500, 600, 700, 800, 900, 1000, 1100, 1200,
        1300, 1400, 1500, 1600, 1700, 1800, 1900, 2000, 2100, 2200, 2300, 2400, 2500,
        2600, 2700, 2800, 2900, 3000, 3100, 3200]"
  have due: "polls_due (pdMS_TO_TICKS_at 1000) ?es
      (onewire_write_byte (fst (onewire_init 0 1)) 0xA5 0, GPIO_PIN_SET)"
    by (simp add: poll_at_def onewire_write_byte_def onewire_init_def
        set_write_init_state_def onewire_process_def deadline_open_def is_time_expired_def
        set_state_def set_flag_def handle_write_bit_done_state_def write_high_init_body_def
        pdMS_TO_TICKS_at_def delay_defs Let_def word_le_nat_alt)
  have len: "length ?es = 32"
    by simp
  note run = C5_write_byte_lsb_first [THEN conjunct2, THEN mp, OF conjI [OF due len]]
  have states: "write_byte_states (pdMS_TO_TICKS_at 1000) ?es (fst (onewire_init 0 1)) 0xA5 0
      GPIO_PIN_SET = map (byte_write_state 0xA5) [0..<33]"
    by (rule run [THEN conjunct1])
  have line: "Port (fst (onewire_init 0 1)) = 0" "Pin (fst (onewire_init 0 1)) = 1"
    by (simp_all add: onewire_init_def Let_def)
  have calls: "snd (onewire_poll (pdMS_TO_TICKS_at 1000) ?es
      (onewire_write_byte (fst (onewire_init 0 1)) 0xA5 0, GPIO_PIN_SET)) =
     concat (replicate 8 [HAL_GPIO_WritePin 0 1 GPIO_PIN_RESET,
                          HAL_GPIO_WritePin 0 1 GPIO_PIN_SET])"
    using run [THEN conjunct2] by (simp only: line)
  show ?thesis
    by (intro conjI due len calls trans [OF states byte_write_states_A5])
qed

end
